theory Spec2Isabelle
  imports Main
begin

section \<open>Strings\<close>

text \<open>
  A TypeScript string is modelled as a \<^typ>\<open>string\<close>. Every character the code compares
  against is ASCII: the block letters \<open>A\<close>..\<open>Z\<close>, the relax letters, the engine names, the
  digits and the characters \<open><\<close>, \<open>>\<close>, \<open>$\<close>, \<open>&\<close>, the backquote, the quote and \<open>:\<close>.
  \<open>toLowerCase\<close> is modelled on the ASCII letters and keeps every other character: its only
  uses are a lookup of single characters in the relax-letter table and a comparison with four
  ASCII engine names, and lower-casing turns no character outside ASCII into one of those.
\<close>

definition ascii_upper :: string where
  "ascii_upper = ''ABCDEFGHIJKLMNOPQRSTUVWXYZ''"

definition ascii_lower :: string where
  "ascii_lower = ''abcdefghijklmnopqrstuvwxyz''"

definition ascii_digits :: string where
  "ascii_digits = ''0123456789''"

definition toLowerChar :: "char \<Rightarrow> char" where
  "toLowerChar c = (case map_of (zip ascii_upper ascii_lower) c of Some l \<Rightarrow> l | None \<Rightarrow> c)"

definition toLowerCase :: "string \<Rightarrow> string" where
  "toLowerCase s = map toLowerChar s"

text \<open>The character class \<open>[A-Z]\<close> and the class \<open>\d\<close> (ASCII digits in JavaScript).\<close>

definition isUpperAZ :: "char \<Rightarrow> bool" where
  "isUpperAZ c = (c \<in> set ascii_upper)"

definition isDigit :: "char \<Rightarrow> bool" where
  "isDigit c = (c \<in> set ascii_digits)"

text \<open>
  Decimal rendering of an array index inside a template literal (\<open>`<${j}>`\<close>), and of an
  integer (\<open>`S${phase}`\<close>; JavaScript switches to exponent notation from \<open>10^21\<close> on, which
  is not modelled: only the \<open>id\<close> field of a fallback menu holds that text).
\<close>

fun showNat :: "nat \<Rightarrow> string" where
  "showNat n = (if n < 10 then [ascii_digits ! n] else showNat (n div 10) @ [ascii_digits ! (n mod 10)])"

declare showNat.simps [simp del]

definition showInt :: "int \<Rightarrow> string" where
  "showInt i = (if i < 0 then ''-'' @ showNat (nat (- i)) else showNat (nat i))"

text \<open>\<open>Array.prototype.join(" ")\<close>.\<close>

fun joinSpace :: "string list \<Rightarrow> string" where
  "joinSpace [] = []"
| "joinSpace [x] = x"
| "joinSpace (x # y # ys) = x @ '' '' @ joinSpace (y # ys)"

section \<open>Configuration (config.ts)\<close>

record FilterConfig =
  code :: string
  name :: string
  google :: string
  bing :: string
  yandex :: string
  ddg :: string

record OptionConfig =
  code :: string
  description :: string
  "value" :: string

record PhaseConfig =
  description :: string
  nuance :: string
  options :: "(string \<times> OptionConfig) list"

text \<open>
  A \<open>Map\<close> is iterated in insertion order, so \<open>filters\<close> and \<open>phases\<close> are association
  lists in that order.
\<close>

record FraviaConfig =
  version :: string
  filters :: "(string \<times> FilterConfig) list"
  phases :: "(string \<times> PhaseConfig) list"

definition getDefaultConfig :: FraviaConfig where
  \<open>getDefaultConfig = \<lparr>
     version = ''5.0'',
     filters = [
       (''1'', \<lparr>FilterConfig.code = ''s'', name = ''SOCIAL'',
          google = ''-site:pinterest.* -site:twitter.com -site:facebook.com -site:reddit.com -site:quora.com'',
          bing = ''NOT site:pinterest.com NOT site:twitter.com NOT site:facebook.com NOT site:reddit.com'',
          yandex = ''-site:pinterest.com -site:twitter.com -site:facebook.com -site:reddit.com'',
          ddg = ''-site:pinterest.com -site:twitter.com -site:facebook.com -site:reddit.com''\<rparr>),
       (''2'', \<lparr>FilterConfig.code = ''f'', name = ''FREE_HOSTING'',
          google = ''-site:blogspot.* -site:*.wixsite.com -site:weebly.com -site:tumblr.com -site:*.wordpress.com -site:sites.google.com'',
          bing = ''NOT site:blogspot.com NOT url:wixsite NOT url:weebly NOT site:tumblr.com'',
          yandex = ''-rhost:com.blogspot.* -rhost:com.wixsite.* -rhost:com.weebly.* -site:tumblr.com'',
          ddg = ''-blogspot -wixsite -weebly -tumblr''\<rparr>),
       (''3'', \<lparr>FilterConfig.code = ''t'', name = ''SPAM_TLDS'',
          google = ''-site:.info -site:.xyz -site:.top -site:.click -site:.online -site:.site -site:.space -site:.icu -site:.buzz'',
          bing = ''NOT site:.info NOT site:.xyz NOT site:.top NOT site:.click NOT site:.online'',
          yandex = ''-domain:info -domain:xyz -domain:top -domain:click -domain:online'',
          ddg = ''-site:.info -site:.xyz -site:.top -site:.click -site:.online''\<rparr>),
       (''4'', \<lparr>FilterConfig.code = ''u'', name = ''STRUCTURAL_CRUFT'',
          google = ''-inurl:/tag/ -inurl:/category/ -inurl:/page/ -inurl:/archive/ -inurl:?p= -inurl:?page='',
          bing = ''NOT url:tag NOT url:category NOT url:page NOT url:archive'',
          yandex = ''-inurl:/tag/ -inurl:/category/ -inurl:/page/'',
          ddg = ''-inurl:/tag/ -inurl:/category/ -inurl:/page/''\<rparr>),
       (''5'', \<lparr>FilterConfig.code = ''c'', name = ''COMMERCIAL'',
          google = ''-"affiliate" -"we may earn" -"as an amazon associate" -inurl:affiliate -inurl:sponsored'',
          bing = ''NOT "affiliate" NOT "we may earn" NOT inbody:"taboola" NOT inbody:"outbrain"'',
          yandex = ''-"affiliate" -"we may earn"'',
          ddg = ''-"affiliate" -"sponsored" -"commission"''\<rparr>),
       (''6'', \<lparr>FilterConfig.code = ''l'', name = ''LISTICLES'',
          google = ''-intitle:"top 10" -intitle:"top 20" -intitle:"best of" -intitle:"ultimate guide"'',
          bing = ''NOT intitle:"top 10" NOT intitle:"best of"'',
          yandex = ''-title:"top 10" -title:"best of"'',
          ddg = ''-"top 10" -"best of" -"ultimate guide"''\<rparr>),
       (''7'', \<lparr>FilterConfig.code = ''a'', name = ''AI_SLOP'',
          google = ''-"in this comprehensive guide" -"let's dive in" -"without further ado" -"in today's fast-paced world"'',
          bing = ''NOT "let's dive in" NOT "comprehensive guide"'',
          yandex = ''-"let's dive in" -"comprehensive guide"'',
          ddg = ''-"let's dive in" -"without further ado"''\<rparr>)],
     phases = []\<rparr>\<close>

subsection \<open>getActiveFilters\<close>

text \<open>The table \<open>codeToNumber\<close>: lowercase letter to filter key.\<close>

definition codeToNumber :: "char \<Rightarrow> string option" where
  "codeToNumber c = map_of
     [(CHR ''s'', ''1''), (CHR ''f'', ''2''), (CHR ''t'', ''3''), (CHR ''u'', ''4''),
      (CHR ''c'', ''5''), (CHR ''l'', ''6''), (CHR ''a'', ''7'')] c"

text \<open>
  The first loop: every character of \<open>codes.toLowerCase()\<close> that the table maps adds its
  filter key to the set \<open>relaxedCodes\<close>, which is only ever asked for membership.
\<close>

definition relaxedCodes :: "string \<Rightarrow> string set" where
  "relaxedCodes codes =
     foldl (\<lambda>relaxed ch. case codeToNumber ch of Some n \<Rightarrow> insert n relaxed | None \<Rightarrow> relaxed)
       {} (toLowerCase codes)"

definition validEngines :: "string list" where
  "validEngines = [''google'', ''bing'', ''yandex'', ''ddg'']"

definition targetEngine :: "string \<Rightarrow> string" where
  "targetEngine engine =
     (let engineKey = toLowerCase engine
      in if engineKey \<in> set validEngines then engineKey else ''google'')"

text \<open>The field read \<open>filter[targetEngine]\<close>, for the four keys \<open>targetEngine\<close> can return.\<close>

definition filterValue :: "string \<Rightarrow> FilterConfig \<Rightarrow> string" where
  "filterValue target f =
     (if target = ''bing'' then bing f
      else if target = ''yandex'' then yandex f
      else if target = ''ddg'' then ddg f
      else google f)"

text \<open>
  The second loop: the array \<open>exclusions\<close>, one non-empty clause per filter whose key is
  not relaxed, in the order of the filter table.
\<close>

fun exclusions :: "string set \<Rightarrow> string \<Rightarrow> (string \<times> FilterConfig) list \<Rightarrow> string list" where
  "exclusions relaxed target [] = []"
| "exclusions relaxed target ((num, f) # rest) =
     (if num \<notin> relaxed
      then (if filterValue target f \<noteq> [] then filterValue target f # exclusions relaxed target rest
            else exclusions relaxed target rest)
      else exclusions relaxed target rest)"

definition activeExclusions :: "string \<Rightarrow> FraviaConfig \<Rightarrow> string \<Rightarrow> string list" where
  "activeExclusions codes config engine =
     exclusions (relaxedCodes codes) (targetEngine engine) (filters config)"

definition getActiveFilters :: "string \<Rightarrow> FraviaConfig \<Rightarrow> string \<Rightarrow> string" where
  "getActiveFilters codes config engine = joinSpace (activeExclusions codes config engine)"

section \<open>Phase menus (phases.ts)\<close>

datatype OnOff = ON | OFF

record NoiseFilter =
  code :: string
  name :: string
  applies :: string
  default :: OnOff

text \<open>\<open>engines\<close> is an object literal with string keys: \<open>Object.entries\<close> lists it in the
  order the keys are written.\<close>

record BuildingBlock =
  code :: string
  name :: string
  description :: string
  engines :: "(string \<times> string list) list"

record Precombination =
  code :: string
  name :: string
  expandsTo :: "string list"
  description :: string

record Phase =
  id :: string
  name :: string
  purpose :: string

record PhaseMenu =
  phase :: int
  id :: string
  name :: string
  purpose :: string
  noiseFilters :: "NoiseFilter list"
  buildingBlocks :: "BuildingBlock list"
  precombinations :: "Precombination list"
  engineNuances :: "(string \<times> string) list"

text \<open>An entry of \<open>PHASE_MENUS\<close>: a menu without its \<open>phase\<close> and \<open>noiseFilters\<close>.\<close>

record PhaseData =
  id :: string
  name :: string
  purpose :: string
  buildingBlocks :: "BuildingBlock list"
  precombinations :: "Precombination list"
  engineNuances :: "(string \<times> string) list"

definition NOISE_FILTERS :: "NoiseFilter list" where
  \<open>NOISE_FILTERS = [
     \<lparr>NoiseFilter.code = ''s'', name = ''Social/Forum'',
       applies = ''Pinterest, Reddit, Quora, Facebook, Twitter'', default = ON\<rparr>,
     \<lparr>NoiseFilter.code = ''f'', name = ''Free Hosting/Blogs'',
       applies = ''Blogspot, Wix, Weebly, Tumblr, WordPress.com'', default = ON\<rparr>,
     \<lparr>NoiseFilter.code = ''t'', name = ''Spam TLDs'',
       applies = ''.info, .xyz, .top, .click, .online, .site, .space, .icu, .buzz'', default = ON\<rparr>,
     \<lparr>NoiseFilter.code = ''u'', name = ''Structural Cruft'',
       applies = ''/tag/, /category/, /page/, /archive/, ?p=, ?page='', default = ON\<rparr>,
     \<lparr>NoiseFilter.code = ''c'', name = ''Commercial/Affiliate'',
       applies = ''affiliate tracking, 'we may earn', Amazon associate'', default = ON\<rparr>,
     \<lparr>NoiseFilter.code = ''l'', name = ''Clickbait/Listicles'',
       applies = ''top 10, best X for Y, ultimate guide'', default = ON\<rparr>,
     \<lparr>NoiseFilter.code = ''a'', name = ''Generic AI Slop'',
       applies = ''comprehensive guide, let's dive in, without further ado'', default = ON\<rparr>]\<close>

definition PHASES :: "Phase list" where
  \<open>PHASES = [
     \<lparr>Phase.id = ''S1'', name = ''Reconnaissance'',
       purpose = ''Map vocabulary, key actors, obvious authority and garbage''\<rparr>,
     \<lparr>Phase.id = ''S2'', name = ''Surface Scan'',
       purpose = ''Clean, high-signal overview of known information''\<rparr>,
     \<lparr>Phase.id = ''S3'', name = ''Deep Documents'',
       purpose = ''Extract PDFs, XLS, technical artifacts''\<rparr>,
     \<lparr>Phase.id = ''S4'', name = ''Structural Mapping'',
       purpose = ''APIs, subdomains, infrastructure discovery''\<rparr>,
     \<lparr>Phase.id = ''S5'', name = ''Filtered High-Signal'',
       purpose = ''Maximum filter strictness, authority sources only''\<rparr>,
     \<lparr>Phase.id = ''S6'', name = ''Negative-Space'',
       purpose = ''Failures, contradictions, what's missing''\<rparr>,
     \<lparr>Phase.id = ''S7'', name = ''Temporal Evolution'',
       purpose = ''Historical analysis, time-bounded searches''\<rparr>,
     \<lparr>Phase.id = ''S8'', name = ''Language/Regional Lateral'',
       purpose = ''Cross-language, regional engine exploration''\<rparr>]\<close>

definition S1_menu :: PhaseData where
  \<open>S1_menu = \<lparr>
     PhaseData.id = ''S1'',
     name = ''Reconnaissance'',
     purpose = ''Map vocabulary, key actors, obvious authority and obvious garbage around the topic.'',
     buildingBlocks = [
       \<lparr>BuildingBlock.code = ''A'', name = ''Broad term+synonym sweep'',
         description = ''Use topic + all synonyms to discover how the web names this thing.'',
         engines = [
           (''google'', [''"<0>" OR "<1>" OR "<2>"'']),
           (''bing'', [''"<0>" OR "<1>" OR "<2>"'']),
           (''yandex'', [''"<0>" | "<1>" | "<2>"''])]\<rparr>,
       \<lparr>BuildingBlock.code = ''B'', name = ''Term + context word'',
         description = ''Pair main subject with generic context (overview, definition) to bias intros.'',
         engines = [
           (''google'', [''"<0>" "overview"'', ''"<0>" "definition"'']),
           (''bing'', [''"<0>" "introduction"'']),
           (''yandex'', [''"<0>" & "what is"''])]\<rparr>,
       \<lparr>BuildingBlock.code = ''C'', name = ''Entity co-mention'',
         description = ''Find entities that appear near your subject to identify linked products/companies.'',
         engines = [
           (''google'', [''"<0>" AROUND(8) "cloud"'', ''"<0>" AROUND(8) "GPU"'']),
           (''bing'', [''"<0>" near:8 "server"'']),
           (''yandex'', [''"<0>" /5 "technology"''])]\<rparr>],
     precombinations = [
       \<lparr>Precombination.code = ''X'', name = ''Standard Recon Combo'', expandsTo = [''A'', ''B''],
         description = ''Broad sweep + definition focus''\<rparr>,
       \<lparr>Precombination.code = ''Y'', name = ''Infra-tinged Recon'', expandsTo = [''A'', ''C''],
         description = ''Broad sweep + entity co-mentions''\<rparr>],
     engineNuances = [
       (''google'', ''G: Text & entity co-occurrence. AROUND(n) for concept binding. High SEO noise at reconnaissance.''),
       (''bing'', ''G: Alternate view of same space. May surface smaller or regional sites Google buries.''),
       (''yandex'', ''G: Early hint of regional (RU/CIS) coverage. Structural TLD distribution.'')]\<rparr>\<close>

definition S2_menu :: PhaseData where
  \<open>S2_menu = \<lparr>
     PhaseData.id = ''S2'',
     name = ''Surface Scan'',
     purpose = ''Obtain a clean, higher-signal overview of what is known about the topic.'',
     buildingBlocks = [
       \<lparr>BuildingBlock.code = ''A'', name = ''Authority overview (edu/gov/org)'',
         description = ''Bias towards official or academic overview material.'',
         engines = [
           (''google'', [''"<0>" overview OR introduction (site:edu OR site:gov OR site:org)'']),
           (''bing'', [''"<0>" (overview OR definition) (site:edu OR site:gov OR site:org)'']),
           (''yandex'', [''"<0>" & (overview | introduction) (site:*.edu | site:*.gov)''])]\<rparr>,
       \<lparr>BuildingBlock.code = ''B'', name = ''Current state / recent developments'',
         description = ''Emphasize recency to see what has changed lately.'',
         engines = [
           (''google'', [''"<0>" "current state" OR "recent developments" after:2023-01-01'']),
           (''bing'', [''"<0>" "recent" OR "latest" language:en'']),
           (''yandex'', [''"<0>" date:>20230101''])]\<rparr>,
       \<lparr>BuildingBlock.code = ''C'', name = ''Practice & usage'',
         description = ''How the topic is used in the field (developer docs, guides).'',
         engines = [
           (''google'', [''"<0>" "developer guide" OR "getting started"'']),
           (''bing'', [''"<0>" "documentation" (site:docs.* OR site:developer.*)'']),
           (''yandex'', [''"<0>" & (documentation | guide) domain:com''])]\<rparr>],
     precombinations = [
       \<lparr>Precombination.code = ''X'', name = ''Balanced Surface Overview'', expandsTo = [''A'', ''C''],
         description = ''Authority + practical usage''\<rparr>,
       \<lparr>Precombination.code = ''Y'', name = ''Recency-Biased Overview'', expandsTo = [''A'', ''B''],
         description = ''Authority + recent focus''\<rparr>],
     engineNuances = [
       (''google'', ''G: Will tend to show polished explainers and official docs first once noise is suppressed.''),
       (''bing'', ''G: Good for finding Microsoft/industry whitepapers or niche docs that Google buries.''),
       (''yandex'', ''G: Useful to see whether there is a significant non-English body of overview material.'')]\<rparr>\<close>

definition S3_menu :: PhaseData where
  \<open>S3_menu = \<lparr>
     PhaseData.id = ''S3'',
     name = ''Deep Documents'',
     purpose = ''Extract non-HTML artifacts: PDFs, spreadsheets, presentations, data files.'',
     buildingBlocks = [
       \<lparr>BuildingBlock.code = ''A'', name = ''PDF Extraction (All Engines)'',
         description = ''Find PDF documents across all engines.'',
         engines = [
           (''google'', [''"<0>" filetype:pdf'']),
           (''bing'', [''"<0>" contains:pdf'']),
           (''yandex'', [''"<0>" mime:pdf''])]\<rparr>,
       \<lparr>BuildingBlock.code = ''B'', name = ''Data/Config Files (XLS/JSON)'',
         description = ''Find spreadsheets, data files, configuration files.'',
         engines = [
           (''google'', [''"<0>" (filetype:xls OR filetype:xlsx OR filetype:json)'']),
           (''bing'', [''"<0>" contains:xlsx'']),
           (''yandex'', [''"<0>" (mime:xls | mime:json)''])]\<rparr>,
       \<lparr>BuildingBlock.code = ''C'', name = ''Academic PDFs Only'',
         description = ''PDFs from academic sources.'',
         engines = [
           (''google'', [''"<0>" filetype:pdf site:edu'']),
           (''bing'', [''"<0>" contains:pdf site:edu'']),
           (''yandex'', [''"<0>" mime:pdf site:*.edu''])]\<rparr>,
       \<lparr>BuildingBlock.code = ''D'', name = ''Presentations'',
         description = ''PowerPoint and presentation files.'',
         engines = [
           (''google'', [''"<0>" (filetype:ppt OR filetype:pptx)'']),
           (''bing'', [''"<0>" contains:pptx'']),
           (''yandex'', [''"<0>" mime:ppt''])]\<rparr>],
     precombinations = [
       \<lparr>Precombination.code = ''X'', name = ''Full Document Sweep'', expandsTo = [''A'', ''B'', ''D''],
         description = ''All document types''\<rparr>,
       \<lparr>Precombination.code = ''Y'', name = ''Academic Focus'', expandsTo = [''A'', ''C''],
         description = ''PDFs with academic bias''\<rparr>],
     engineNuances = [
       (''google'', ''G: Text inside PDF searchable. filetype: operator.''),
       (''bing'', ''G: contains: finds pages hosting files.''),
       (''yandex'', ''G: mime: for raw file type matching.'')]\<rparr>\<close>

definition S4_menu :: PhaseData where
  \<open>S4_menu = \<lparr>
     PhaseData.id = ''S4'',
     name = ''Structural Mapping'',
     purpose = ''Map digital layout: APIs, subdomains, infrastructure.'',
     buildingBlocks = [
       \<lparr>BuildingBlock.code = ''A'', name = ''Subdomain Map'',
         description = ''Discover subdomains of target domain.'',
         engines = [
           (''yandex'', [''rhost:com.<0>.*'']),
           (''bing'', [''site:<0>'']),
           (''google'', [''site:*.<0>''])]\<rparr>,
       \<lparr>BuildingBlock.code = ''B'', name = ''API/Docs Discovery'',
         description = ''Find API documentation and developer resources.'',
         engines = [
           (''google'', [''site:<0> inurl:api OR inurl:docs'']),
           (''bing'', [''site:<0> inurl:api'']),
           (''yandex'', [''site:<0> & (api | docs)''])]\<rparr>,
       \<lparr>BuildingBlock.code = ''C'', name = ''Directory Listings'',
         description = ''Find exposed directory listings.'',
         engines = [
           (''google'', [''intitle:"index of" "<0>"'']),
           (''bing'', [''intitle:"index of" "<0>"'']),
           (''yandex'', [''title:"index of" "<0>"''])]\<rparr>],
     precombinations = [
       \<lparr>Precombination.code = ''X'', name = ''Infrastructure Sweep'', expandsTo = [''A'', ''B''],
         description = ''Subdomains + APIs''\<rparr>],
     engineNuances = [
       (''bing'', ''G: ip: finds neighbors on same IP.''),
       (''yandex'', ''G: rhost: reverse host for subdomain discovery.''),
       (''google'', ''G: site:*.domain for wildcard subdomain.'')]\<rparr>\<close>

definition S5_menu :: PhaseData where
  \<open>S5_menu = \<lparr>
     PhaseData.id = ''S5'',
     name = ''Filtered High-Signal'',
     purpose = ''Maximum filter strictness, authority sources only.'',
     buildingBlocks = [
       \<lparr>BuildingBlock.code = ''A'', name = ''Academic Authority Lock'',
         description = ''Only .edu, .ac.*, research institutions.'',
         engines = [
           (''google'', [''"<0>" (site:edu OR site:ac.* OR site:arxiv.org OR site:researchgate.net)'']),
           (''bing'', [''"<0>" (site:edu OR site:ac.*)'']),
           (''yandex'', [''"<0>" (site:*.edu | site:*.ac.*)''])]\<rparr>,
       \<lparr>BuildingBlock.code = ''B'', name = ''Government Authority Lock'',
         description = ''Only .gov, .mil, official government sources.'',
         engines = [
           (''google'', [''"<0>" (site:gov OR site:gov.* OR site:mil)'']),
           (''bing'', [''"<0>" (site:gov OR site:gov.*)'']),
           (''yandex'', [''"<0>" (site:*.gov | site:*.mil)''])]\<rparr>,
       \<lparr>BuildingBlock.code = ''C'', name = ''Technical Authority Lock'',
         description = ''GitHub, StackOverflow, official docs.'',
         engines = [
           (''google'', [''"<0>" (site:github.com OR site:stackoverflow.com OR site:developer.*)'']),
           (''bing'', [''"<0>" (site:github.com OR site:stackoverflow.com)'']),
           (''yandex'', [''"<0>" (site:github.com | site:stackoverflow.com)''])]\<rparr>],
     precombinations = [
       \<lparr>Precombination.code = ''X'', name = ''All Authority'', expandsTo = [''A'', ''B'', ''C''],
         description = ''Academic + Gov + Tech''\<rparr>],
     engineNuances = [
       (''google'', ''G: Combine with date filters for authoritative recent.''),
       (''bing'', ''G: prefer: boosts but doesn't exclude.''),
       (''yandex'', ''G: domain: for TLD-only filtering.'')]\<rparr>\<close>

definition S6_menu :: PhaseData where
  \<open>S6_menu = \<lparr>
     PhaseData.id = ''S6'',
     name = ''Negative-Space'',
     purpose = ''Find failures, contradictions, criticism, what is missing.'',
     buildingBlocks = [
       \<lparr>BuildingBlock.code = ''A'', name = ''Failure/Problem Search'',
         description = ''Find discussions of problems, failures, issues.'',
         engines = [
           (''google'', [''"<0>" (failed OR failure OR problem OR issue OR bug)'']),
           (''bing'', [''"<0>" (problem OR issue OR failure)'']),
           (''yandex'', [''"<0>" & (problem | failure | bug)''])]\<rparr>,
       \<lparr>BuildingBlock.code = ''B'', name = ''Criticism/Controversy'',
         description = ''Find critical perspectives and controversies.'',
         engines = [
           (''google'', [''"<0>" (criticism OR controversy OR debate OR questioned)'']),
           (''bing'', [''"<0>" (criticism OR controversy)'']),
           (''yandex'', [''"<0>" & (criticism | controversy)''])]\<rparr>,
       \<lparr>BuildingBlock.code = ''C'', name = ''Exclude Dominant Sources'',
         description = ''Find obscure sources by excluding major ones.'',
         engines = [
           (''google'', [''"<0>" -site:wikipedia.org -site:britannica.com -site:medium.com'']),
           (''bing'', [''"<0>" NOT site:wikipedia.org NOT site:medium.com'']),
           (''yandex'', [''"<0>" -site:wikipedia.org -site:medium.com''])]\<rparr>],
     precombinations = [
       \<lparr>Precombination.code = ''X'', name = ''Full Negative Space'', expandsTo = [''A'', ''B'', ''C''],
         description = ''Problems + Criticism + Obscure''\<rparr>],
     engineNuances = [
       (''google'', ''G: AROUND(n) to find terms near 'problem' or 'failure'.''),
       (''bing'', ''G: NOT for exclusion, near: for proximity.''),
       (''yandex'', ''G: - prefix for exclusion.'')]\<rparr>\<close>

definition S7_menu :: PhaseData where
  \<open>S7_menu = \<lparr>
     PhaseData.id = ''S7'',
     name = ''Temporal Evolution'',
     purpose = ''Historical analysis, time-bounded searches, evolution of topic.'',
     buildingBlocks = [
       \<lparr>BuildingBlock.code = ''A'', name = ''Recent Only (Last Year)'',
         description = ''Content from the last year only.'',
         engines = [
           (''google'', [''"<0>" after:2024-01-01'']),
           (''bing'', [''"<0>"'']),
           (''yandex'', [''"<0>" date:>20240101''])]\<rparr>,
       \<lparr>BuildingBlock.code = ''B'', name = ''Historical (Pre-2020)'',
         description = ''Older content before recent hype cycles.'',
         engines = [
           (''google'', [''"<0>" before:2020-01-01'']),
           (''bing'', [''"<0>"'']),
           (''yandex'', [''"<0>" date:<20200101''])]\<rparr>,
       \<lparr>BuildingBlock.code = ''C'', name = ''Wayback Machine'',
         description = ''Search Internet Archive for historical snapshots.'',
         engines = [
           (''archive'', [''<0>'']),
           (''google'', [''site:web.archive.org "<0>"''])]\<rparr>],
     precombinations = [
       \<lparr>Precombination.code = ''X'', name = ''Time Contrast'', expandsTo = [''A'', ''B''],
         description = ''Compare recent vs historical''\<rparr>],
     engineNuances = [
       (''google'', ''G: before:/after: for date filtering.''),
       (''bing'', ''G: Use freshness parameter in API.''),
       (''yandex'', ''G: date: with comparison operators.''),
       (''archive'', ''G: CDX API for programmatic access.'')]\<rparr>\<close>

definition S8_menu :: PhaseData where
  \<open>S8_menu = \<lparr>
     PhaseData.id = ''S8'',
     name = ''Language/Regional Lateral'',
     purpose = ''Cross-language exploration, regional engines, non-English sources.'',
     buildingBlocks = [
       \<lparr>BuildingBlock.code = ''A'', name = ''Russian/CIS Sources'',
         description = ''Search Russian-language and CIS region sources.'',
         engines = [
           (''yandex'', [''"<0>" lang:ru'', ''"<0>" domain:ru'']),
           (''google'', [''"<0>" site:ru''])]\<rparr>,
       \<lparr>BuildingBlock.code = ''B'', name = ''Chinese Sources'',
         description = ''Search Chinese-language sources.'',
         engines = [
           (''baidu'', [''"<0>"'']),
           (''google'', [''"<0>" site:cn''])]\<rparr>,
       \<lparr>BuildingBlock.code = ''C'', name = ''European Sources'',
         description = ''Search European language sources.'',
         engines = [
           (''google'', [''"<0>" (site:de OR site:fr OR site:es OR site:it)'']),
           (''yandex'', [''"<0>" (domain:de | domain:fr | domain:es)''])]\<rparr>,
       \<lparr>BuildingBlock.code = ''D'', name = ''Academic Cross-Language'',
         description = ''Academic sources in multiple languages.'',
         engines = [
           (''google'', [''"<0>" (site:edu.* OR site:ac.* OR site:uni-*)'']),
           (''scholar'', [''"<0>"''])]\<rparr>],
     precombinations = [
       \<lparr>Precombination.code = ''X'', name = ''Global Sweep'', expandsTo = [''A'', ''B'', ''C''],
         description = ''All regional sources''\<rparr>,
       \<lparr>Precombination.code = ''Y'', name = ''Academic Global'', expandsTo = [''A'', ''D''],
         description = ''Russian + Academic''\<rparr>],
     engineNuances = [
       (''yandex'', ''G: Strongest for Russian/CIS, lang: and domain: operators.''),
       (''baidu'', ''G: Required for Chinese sources, different operator syntax.''),
       (''google'', ''G: site:TLD for regional filtering.''),
       (''scholar'', ''G: Cross-language academic search.'')]\<rparr>\<close>

text \<open>The table \<open>PHASE_MENUS\<close>, keyed by phase number: the keys are \<open>1\<close> to \<open>8\<close>.\<close>

definition PHASE_MENUS :: "int \<Rightarrow> PhaseData option" where
  "PHASE_MENUS = map_of
     [(1, S1_menu), (2, S2_menu), (3, S3_menu), (4, S4_menu),
      (5, S5_menu), (6, S6_menu), (7, S7_menu), (8, S8_menu)]"

text \<open>
  \<open>PHASES[phase - 1]\<close>: an array read, \<open>undefined\<close> outside the array (also for a negative
  index).
\<close>

definition phaseAt :: "int \<Rightarrow> Phase option" where
  "phaseAt i = (if 0 \<le> i \<and> i < int (length PHASES) then Some (PHASES ! nat i) else None)"

text \<open>\<open>x?.field || fallback\<close>: the fallback replaces a missing entry and an empty string.\<close>

definition orElse :: "string option \<Rightarrow> string \<Rightarrow> string" where
  "orElse v fallback = (case v of None \<Rightarrow> fallback | Some s \<Rightarrow> if s = [] then fallback else s)"

definition getPhaseMenu :: "int \<Rightarrow> PhaseMenu" where
  "getPhaseMenu ph =
     (case PHASE_MENUS ph of
        None \<Rightarrow>
          \<lparr>phase = ph,
           id = ''S'' @ showInt ph,
           name = orElse (map_option Phase.name (phaseAt (ph - 1))) ''Unknown'',
           purpose = orElse (map_option Phase.purpose (phaseAt (ph - 1))) ''Not defined'',
           noiseFilters = NOISE_FILTERS,
           buildingBlocks = [],
           precombinations = [],
           engineNuances = []\<rparr>
      | Some phaseData \<Rightarrow>
          \<lparr>phase = ph,
           id = PhaseData.id phaseData,
           name = PhaseData.name phaseData,
           purpose = PhaseData.purpose phaseData,
           noiseFilters = NOISE_FILTERS,
           buildingBlocks = PhaseData.buildingBlocks phaseData,
           precombinations = PhaseData.precombinations phaseData,
           engineNuances = PhaseData.engineNuances phaseData\<rparr>)"

section \<open>Query construction (executor.ts)\<close>

record Query =
  engine :: string
  query :: string
  phase :: int
  blockCode :: string

subsection \<open>Regular-expression replacement\<close>

text \<open>
  The two regular expressions of \<open>buildQueries\<close>, both used with the global flag:
  \<open>new RegExp(`<${j}>`, "g")\<close> and \<open>/<\d+>/g\<close>. \<open>matchLength\<close> is the length of the match
  that starts at the head of the text, if there is one; a match is never empty.
\<close>

datatype slotPattern = SlotIndex nat | AnySlot

definition matchSlotIndex :: "nat \<Rightarrow> string \<Rightarrow> nat option" where
  "matchSlotIndex j s =
     (let p = ''<'' @ showNat j @ ''>''
      in if take (length p) s = p then Some (length p) else None)"

definition matchAnySlot :: "string \<Rightarrow> nat option" where
  "matchAnySlot s =
     (case s of
        [] \<Rightarrow> None
      | c # r \<Rightarrow>
          if c = CHR ''<''
          then (let ds = takeWhile isDigit r
                in if ds \<noteq> [] \<and> take 1 (drop (length ds) r) = ''>''
                   then Some (length ds + 2) else None)
          else None)"

fun matchLength :: "slotPattern \<Rightarrow> string \<Rightarrow> nat option" where
  "matchLength (SlotIndex j) s = matchSlotIndex j s"
| "matchLength AnySlot s = matchAnySlot s"

text \<open>
  \<open>String.prototype.replace\<close> with a string as replacement expands the replacement patterns
  of ECMAScript's GetSubstitution at every match: \<open>$$\<close> is a dollar sign, \<open>$&\<close> the matched
  text, \<open>$\<close> with a backquote the text before the match, \<open>$\<close> with a quote the text after
  it. Neither regular expression has a capture group, so \<open>$1\<close>..\<open>$99\<close> and \<open>$<\<close> stay
  as they are, as does a dollar sign before any other character.
\<close>

fun getSubstitution :: "string \<Rightarrow> string \<Rightarrow> string \<Rightarrow> string \<Rightarrow> string" where
  "getSubstitution matched preceding following [] = []"
| "getSubstitution matched preceding following [c] = [c]"
| "getSubstitution matched preceding following (c # d # r) =
     (if c = CHR 0x24
      then (if d = CHR 0x24 then CHR 0x24 # getSubstitution matched preceding following r
            else if d = CHR 0x26 then matched @ getSubstitution matched preceding following r
            else if d = CHR 0x60 then preceding @ getSubstitution matched preceding following r
            else if d = CHR 0x27 then following @ getSubstitution matched preceding following r
            else c # getSubstitution matched preceding following (d # r))
      else c # getSubstitution matched preceding following (d # r))"

text \<open>
  The global replace: the text is scanned from the left, every match is replaced by the
  expanded replacement and the scan goes on behind the match; \<open>preceding\<close> is the part of the
  searched text already passed, which \<open>$\<close> with a backquote refers to.
\<close>

function replaceGlobal :: "slotPattern \<Rightarrow> string \<Rightarrow> string \<Rightarrow> string \<Rightarrow> string" where
  "replaceGlobal pat replacement preceding [] = []"
| "replaceGlobal pat replacement preceding (c # cs) =
     (case matchLength pat (c # cs) of
        None \<Rightarrow> c # replaceGlobal pat replacement (preceding @ [c]) cs
      | Some n \<Rightarrow>
          getSubstitution (take n (c # cs)) preceding (drop n (c # cs)) replacement
            @ replaceGlobal pat replacement (preceding @ take n (c # cs)) (drop n (c # cs)))"
  by pat_completeness auto
termination
proof (relation "measure (\<lambda>(pat, replacement, preceding, s). length s)", goal_cases)
  case 1
  show ?case by simp
next
  case (2 pat replacement preceding c cs)
  show ?case by simp
next
  case (3 pat replacement preceding c cs n)
  then have "0 < n"
    by (cases pat) (auto simp: matchSlotIndex_def matchAnySlot_def Let_def split: if_splits)
  then show ?case by simp
qed

subsection \<open>buildQueries\<close>

text \<open>
  \<open>topics[0]\<close> as a replacement: the first topic, and the text \<open>undefined\<close> for an empty
  array (the read does not fail, and \<open>replace\<close> converts its argument to a string).
\<close>

definition primaryTopic :: "string list \<Rightarrow> string" where
  "primaryTopic topics = (case topics of [] \<Rightarrow> ''undefined'' | t # _ \<Rightarrow> t)"

text \<open>
  The body of the innermost loop up to the hygiene string: \<open>topics.forEach\<close> replaces the
  placeholder of every index in turn, each pass working on the result of the one before;
  then the placeholders still there are replaced by the primary topic.
\<close>

definition substituteTopics :: "string list \<Rightarrow> string \<Rightarrow> string" where
  "substituteTopics topics template =
     (let q = foldl (\<lambda>q (j, topic). replaceGlobal (SlotIndex j) topic [] q)
                template (enumerate 0 topics)
      in replaceGlobal AnySlot (primaryTopic topics) [] q)"

definition appendHygiene :: "string \<Rightarrow> string \<Rightarrow> string" where
  "appendHygiene q hygieneString = (if hygieneString \<noteq> [] then q @ '' '' @ hygieneString else q)"

text \<open>The loop over the topic index \<open>i\<close>: one query is pushed for every index.\<close>

definition templateQueries ::
  "int \<Rightarrow> string \<Rightarrow> string \<Rightarrow> string \<Rightarrow> string list \<Rightarrow> string \<Rightarrow> Query list" where
  "templateQueries ph letter eng hygieneString topics template =
     map (\<lambda>i. \<lparr>engine = eng,
                query = appendHygiene (substituteTopics topics template) hygieneString,
                phase = ph,
                blockCode = letter\<rparr>)
       [0..<length topics]"

text \<open>The loop over the templates of one engine; the hygiene string is computed once,
  from the whole, unexpanded \<open>codes\<close>.\<close>

definition engineQueries ::
  "int \<Rightarrow> string \<Rightarrow> string \<Rightarrow> FraviaConfig \<Rightarrow> string list \<Rightarrow> string \<times> string list \<Rightarrow> Query list" where
  "engineQueries ph letter codes config topics entry =
     (case entry of (eng, templates) \<Rightarrow>
        (let hygieneString = getActiveFilters codes config eng
         in concat (map (templateQueries ph letter eng hygieneString topics) templates)))"

definition blockQueries ::
  "int \<Rightarrow> string \<Rightarrow> string \<Rightarrow> FraviaConfig \<Rightarrow> string list \<Rightarrow> BuildingBlock \<Rightarrow> Query list" where
  "blockQueries ph letter codes config topics block =
     concat (map (engineQueries ph letter codes config topics) (engines block))"

text \<open>\<open>codes.replace(/[^A-Z]/g, "").split("")\<close>: the letters \<open>A\<close>..\<open>Z\<close> of \<open>codes\<close>, each
  as a string of its own.\<close>

definition blockCodes :: "string \<Rightarrow> string list" where
  "blockCodes codes = map (\<lambda>c. [c]) (filter isUpperAZ codes)"

text \<open>\<open>Set.add\<close> on a set that is later iterated: a new element goes to the end, a known
  one changes nothing.\<close>

definition setAdd :: "'a \<Rightarrow> 'a list \<Rightarrow> 'a list" where
  "setAdd x xs = (if x \<in> set xs then xs else xs @ [x])"

definition expandCodes :: "PhaseMenu \<Rightarrow> string list \<Rightarrow> string list" where
  "expandCodes menu codeList =
     foldl (\<lambda>expandedCodes letter.
              case find (\<lambda>p. Precombination.code p = letter) (PhaseMenu.precombinations menu) of
                Some precombo \<Rightarrow> foldl (\<lambda>e c. setAdd c e) expandedCodes (expandsTo precombo)
              | None \<Rightarrow> setAdd letter expandedCodes)
       [] codeList"

text \<open>The array \<open>queries\<close> before deduplication, in the order of the pushes.\<close>

definition produceQueries :: "int \<Rightarrow> string list \<Rightarrow> string \<Rightarrow> FraviaConfig \<Rightarrow> Query list" where
  "produceQueries ph topics codes config =
     (let menu = getPhaseMenu ph
      in concat (map (\<lambda>letter.
                   case find (\<lambda>b. BuildingBlock.code b = letter) (PhaseMenu.buildingBlocks menu) of
                     None \<Rightarrow> []
                   | Some block \<Rightarrow> blockQueries ph letter codes config topics block)
                 (expandCodes menu (blockCodes codes))))"

text \<open>The final \<open>filter\<close> with the set \<open>seen\<close> of keys \<open>`${q.engine}:${q.query}`\<close>.\<close>

definition queryKey :: "Query \<Rightarrow> string" where
  "queryKey q = engine q @ '':'' @ query q"

fun dedupe :: "string set \<Rightarrow> Query list \<Rightarrow> Query list" where
  "dedupe seen [] = []"
| "dedupe seen (q # qs) =
     (if queryKey q \<in> seen then dedupe seen qs else q # dedupe (insert (queryKey q) seen) qs)"

definition buildQueries :: "int \<Rightarrow> string list \<Rightarrow> string \<Rightarrow> FraviaConfig \<Rightarrow> Query list" where
  "buildQueries ph topics codes config = dedupe {} (produceQueries ph topics codes config)"

section \<open>The string-length limit\<close>
















section \<open>Notions used to state the properties\<close>

text \<open>The pair that the specification calls the identity of a constructed query.\<close>

definition enginePair :: "Query \<Rightarrow> string \<times> string" where
  "enginePair q = (engine q, query q)"

text \<open>
  The elements of a list that stand at the first occurrence of their key: position \<open>i\<close>
  is kept when the key of its element is not the key of an element before it.
\<close>

definition firstOccurrences :: "('a \<Rightarrow> 'k) \<Rightarrow> 'a list \<Rightarrow> 'a list" where
  "firstOccurrences key xs =
     map (\<lambda>i. xs ! i) (filter (\<lambda>i. key (xs ! i) \<notin> set (map key (take i xs))) [0..<length xs])"

text \<open>
  Substitution as the specification words it: every occurrence of a placeholder is replaced
  by exactly the text of the topic, with no interpretation of that text. \<open>replaceLiteral\<close>
  is the global replace that inserts the replacement as it is; \<open>substituteExactly\<close> runs
  the pass over the topic indices and then the fallback pass with the primary topic.
\<close>

function replaceLiteral :: "slotPattern \<Rightarrow> string \<Rightarrow> string \<Rightarrow> string" where
  "replaceLiteral pat replacement [] = []"
| "replaceLiteral pat replacement (c # cs) =
     (case matchLength pat (c # cs) of
        None \<Rightarrow> c # replaceLiteral pat replacement cs
      | Some n \<Rightarrow> replacement @ replaceLiteral pat replacement (drop n (c # cs)))"
  by pat_completeness auto
termination
proof (relation "measure (\<lambda>(pat, replacement, s). length s)", goal_cases)
  case 1
  show ?case by simp
next
  case (2 pat replacement c cs)
  show ?case by simp
next
  case (3 pat replacement c cs n)
  then have "0 < n"
    by (cases pat) (auto simp: matchSlotIndex_def matchAnySlot_def Let_def split: if_splits)
  then show ?case by simp
qed

definition substituteExactly :: "string list \<Rightarrow> string \<Rightarrow> string" where
  "substituteExactly topics template =
     (let q = foldl (\<lambda>q (j, topic). replaceLiteral (SlotIndex j) topic q)
                template (enumerate 0 topics)
      in replaceLiteral AnySlot (primaryTopic topics) q)"


section \<open>Properties\<close>

subsection \<open>Auxiliary facts\<close>

lemma concat_map_Nil: "concat (map (\<lambda>x. []) xs) = []"
  by (induction xs) auto





subsection \<open>The phase catalog\<close>

text \<open>
  C9. For every integer phase, configured or not, the menu that \<open>getPhaseMenu\<close> returns has
  its \<open>phase\<close> field equal to the argument and its noise-filter list equal to the one global
  table \<open>NOISE_FILTERS\<close>, whose seven entries have the codes s, f, t, u, c, l, a in that order.
\<close>

theorem getPhaseMenu_wellformed:
  "PhaseMenu.phase (getPhaseMenu ph) = ph \<and>
   noiseFilters (getPhaseMenu ph) = NOISE_FILTERS \<and>
   length NOISE_FILTERS = 7 \<and>
   map NoiseFilter.code NOISE_FILTERS = [''s'', ''f'', ''t'', ''u'', ''c'', ''l'', ''a'']"
  by (simp add: getPhaseMenu_def NOISE_FILTERS_def split: option.split)

text \<open>
  C6. For a phase number that \<open>PHASE_MENUS\<close> has no entry for (999, say), the catalog
  lookup returns a menu with no building block and no precombination, and \<open>buildQueries\<close>
  returns the empty list, for all topics, codes and configurations.
\<close>

theorem unknown_phase_empty:
  "PHASE_MENUS ph = None \<Longrightarrow>
     PhaseMenu.buildingBlocks (getPhaseMenu ph) = [] \<and>
     PhaseMenu.precombinations (getPhaseMenu ph) = [] \<and>
     buildQueries ph topics codes config = []"
  by (simp add: getPhaseMenu_def buildQueries_def produceQueries_def concat_map_Nil)

theorem unknown_phase_empty_witness:
  "PHASE_MENUS 999 = None \<and>
     PhaseMenu.buildingBlocks (getPhaseMenu 999) = [] \<and>
     PhaseMenu.precombinations (getPhaseMenu 999) = [] \<and>
     buildQueries 999 [''x''] ''A'' getDefaultConfig = []"
proof -
  have h: "PHASE_MENUS 999 = None" by (simp add: PHASE_MENUS_def)
  show ?thesis using h unknown_phase_empty [OF h, of "[''x'']" "''A''" getDefaultConfig] by simp
qed

subsection \<open>Deduplication\<close>

lemma dedupe_index:
  "dedupe seen xs =
     map (\<lambda>i. xs ! i)
       (filter (\<lambda>i. queryKey (xs ! i) \<notin> seen \<union> set (map queryKey (take i xs))) [0..<length xs])"
proof (induction xs arbitrary: seen)
  case Nil
  show ?case by simp
next
  case (Cons q qs)
  let ?P = "\<lambda>i. queryKey ((q # qs) ! i) \<notin> seen \<union> set (map queryKey (take i (q # qs)))"
  have upt: "[0..<Suc (length qs)] = 0 # map Suc [0..<length qs]"
    by (simp only: map_Suc_upt upt_conv_Cons [OF zero_less_Suc])
  have tl: "map (\<lambda>i. (q # qs) ! i) (filter ?P (map Suc [0..<length qs]))
            = dedupe (insert (queryKey q) seen) qs"
    unfolding Cons.IH [of "insert (queryKey q) seen"] filter_map map_map
    by (intro arg_cong2 [where f = map] arg_cong2 [where f = filter] ext refl) auto
  have "map (\<lambda>i. (q # qs) ! i) (filter ?P [0..<length (q # qs)])
        = (if queryKey q \<in> seen then [] else [q]) @ dedupe (insert (queryKey q) seen) qs"
    unfolding length_Cons upt filter.simps tl [symmetric] by simp
  moreover have "dedupe seen (q # qs)
        = (if queryKey q \<in> seen then [] else [q]) @ dedupe (insert (queryKey q) seen) qs"
    by (simp add: insert_absorb)
  ultimately show ?case by simp
qed
lemma dedupe_keys_fresh: "q \<in> set (dedupe seen xs) \<Longrightarrow> queryKey q \<notin> seen"
  by (induction xs arbitrary: seen) (auto split: if_splits)

lemma dedupe_keys_distinct: "distinct (map queryKey (dedupe seen xs))"
proof (induction xs arbitrary: seen)
  case Nil
  show ?case by simp
next
  case (Cons q qs)
  have "queryKey x \<noteq> queryKey q" if "x \<in> set (dedupe (insert (queryKey q) seen) qs)" for x
    using dedupe_keys_fresh [OF that] by simp
  then have "queryKey q \<notin> queryKey ` set (dedupe (insert (queryKey q) seen) qs)"
    by (metis imageE)
  with Cons.IH show ?case by simp
qed

lemma set_dedupe_subset: "set (dedupe seen xs) \<subseteq> set xs"
  by (induction xs arbitrary: seen) auto

lemma distinct_map_coarser:
  assumes "distinct (map f xs)" and "\<And>x y. h x = h y \<Longrightarrow> f x = f y"
  shows "distinct (map h xs)"
proof -
  from assms(1) have d: "distinct xs" and i: "inj_on f (set xs)"
    by (simp_all add: distinct_map)
  have "inj_on h (set xs)"
  proof (rule inj_onI)
    fix x y assume "x \<in> set xs" "y \<in> set xs" "h x = h y"
    with i assms(2) show "x = y" by (meson inj_onD)
  qed
  with d show ?thesis by (simp add: distinct_map)
qed

lemma key_inj:
  assumes "e1 @ CHR '':'' # q1 = e2 @ CHR '':'' # q2" "CHR '':'' \<notin> set e1" "CHR '':'' \<notin> set e2"
  shows "e1 = e2 \<and> q1 = q2"
proof -
  have "takeWhile (\<lambda>c. c \<noteq> CHR '':'') (e1 @ CHR '':'' # q1) = e1"
    using assms(2) by (auto simp: takeWhile_tail)
  moreover have "takeWhile (\<lambda>c. c \<noteq> CHR '':'') (e2 @ CHR '':'' # q2) = e2"
    using assms(3) by (auto simp: takeWhile_tail)
  ultimately have "e1 = e2" using assms(1) by simp
  with assms(1) show ?thesis by simp
qed

lemma firstOccurrences_cong:
  assumes "\<And>a b. a \<in> set xs \<Longrightarrow> b \<in> set xs \<Longrightarrow> (f a = f b) = (g a = g b)"
  shows "firstOccurrences f xs = firstOccurrences g xs"
proof -
  have "(f (xs ! i) \<in> f ` set (take i xs)) = (g (xs ! i) \<in> g ` set (take i xs))"
    if "i < length xs" for i
  proof -
    have a: "xs ! i \<in> set xs" using that by simp
    have "(f (xs ! i) = f y) = (g (xs ! i) = g y)" if "y \<in> set (take i xs)" for y
      using assms [OF a in_set_takeD [OF that]] .
    then show ?thesis unfolding image_iff by blast
  qed
  then have "filter (\<lambda>i. f (xs ! i) \<notin> set (map f (take i xs))) [0..<length xs]
           = filter (\<lambda>i. g (xs ! i) \<notin> set (map g (take i xs))) [0..<length xs]"
    by (intro filter_cong) auto
  then show ?thesis unfolding firstOccurrences_def by simp
qed


lemma in_templateQueries:
  "q \<in> set (templateQueries ph letter eng hyg topics template) \<Longrightarrow>
     q = \<lparr>engine = eng, query = appendHygiene (substituteTopics topics template) hyg,
          phase = ph, blockCode = letter\<rparr>"
  by (auto simp: templateQueries_def)

lemma in_blockQueries:
  assumes "q \<in> set (blockQueries ph letter codes config topics block)"
  shows "\<exists>templates template. (engine q, templates) \<in> set (engines block) \<and> template \<in> set templates \<and>
           q = \<lparr>engine = engine q,
                query = appendHygiene (substituteTopics topics template)
                          (getActiveFilters codes config (engine q)),
                phase = ph, blockCode = letter\<rparr>"
proof -
  from assms obtain entry where e: "entry \<in> set (engines block)"
    and q: "q \<in> set (engineQueries ph letter codes config topics entry)"
    by (auto simp: blockQueries_def)
  obtain eng templates where entry: "entry = (eng, templates)" by (cases entry)
  from q entry obtain template where t: "template \<in> set templates"
    and q': "q \<in> set (templateQueries ph letter eng (getActiveFilters codes config eng) topics template)"
    by (auto simp: engineQueries_def Let_def)
  from in_templateQueries [OF q'] have "engine q = eng" by simp
  with in_templateQueries [OF q'] e entry t show ?thesis by auto
qed

lemma in_produceQueries:
  assumes "q \<in> set (produceQueries ph topics codes config)"
  shows "\<exists>block templates template.
           block \<in> set (PhaseMenu.buildingBlocks (getPhaseMenu ph)) \<and>
           (engine q, templates) \<in> set (engines block) \<and> template \<in> set templates \<and>
           q = \<lparr>engine = engine q,
                query = appendHygiene (substituteTopics topics template)
                          (getActiveFilters codes config (engine q)),
                phase = ph, blockCode = blockCode q\<rparr>"
proof -
  let ?bs = "PhaseMenu.buildingBlocks (getPhaseMenu ph)"
  from assms obtain letter where
    l: "q \<in> set (case find (\<lambda>b. BuildingBlock.code b = letter) ?bs of
                     None \<Rightarrow> []
                   | Some block \<Rightarrow> blockQueries ph letter codes config topics block)"
    by (auto simp: produceQueries_def Let_def)
  then obtain block where
    f: "find (\<lambda>b. BuildingBlock.code b = letter) ?bs = Some block"
    and q: "q \<in> set (blockQueries ph letter codes config topics block)"
    by (cases "find (\<lambda>b. BuildingBlock.code b = letter) ?bs") auto
  from f have b: "block \<in> set (PhaseMenu.buildingBlocks (getPhaseMenu ph))"
    by (auto simp: find_Some_iff)
  from in_blockQueries [OF q] obtain templates template where
    r: "(engine q, templates) \<in> set (engines block)" "template \<in> set templates"
       "q = \<lparr>engine = engine q,
                query = appendHygiene (substituteTopics topics template)
                          (getActiveFilters codes config (engine q)),
                phase = ph, blockCode = letter\<rparr>"
    by blast
  from r(3) have "blockCode q = letter" by (metis Query.select_convs(4))
  with b r show ?thesis by auto
qed

lemma menu_engine_names:
  assumes "PHASE_MENUS ph = Some d"
  shows "set (concat (map (map fst \<circ> engines) (PhaseData.buildingBlocks d)))
           \<subseteq> {''google'', ''bing'', ''yandex'', ''archive'', ''baidu'', ''scholar''}"
    (is "?names d \<subseteq> ?E")
proof -
  have n: "?names S1_menu \<subseteq> ?E" "?names S2_menu \<subseteq> ?E" "?names S3_menu \<subseteq> ?E"
    "?names S4_menu \<subseteq> ?E" "?names S5_menu \<subseteq> ?E" "?names S6_menu \<subseteq> ?E"
    "?names S7_menu \<subseteq> ?E" "?names S8_menu \<subseteq> ?E"
    by (simp_all add: S1_menu_def S2_menu_def S3_menu_def S4_menu_def S5_menu_def
          S6_menu_def S7_menu_def S8_menu_def)
  from assms have "(ph, d) \<in> set [(1, S1_menu), (2, S2_menu), (3, S3_menu), (4, S4_menu),
      (5, S5_menu), (6, S6_menu), (7, S7_menu), (8, S8_menu)]"
    unfolding PHASE_MENUS_def by (rule map_of_SomeD)
  then consider "d = S1_menu" | "d = S2_menu" | "d = S3_menu" | "d = S4_menu"
    | "d = S5_menu" | "d = S6_menu" | "d = S7_menu" | "d = S8_menu"
    unfolding set_simps insert_iff prod.inject by blast
  then show ?thesis using n by cases simp_all
qed

lemma engine_name_no_colon:
  "eng \<in> {''google'', ''bing'', ''yandex'', ''archive'', ''baidu'', ''scholar''}
     \<Longrightarrow> CHR '':'' \<notin> set eng"
  by auto

lemma block_engine_no_colon:
  assumes "block \<in> set (PhaseMenu.buildingBlocks (getPhaseMenu ph))"
    and "(eng, templates) \<in> set (engines block)"
  shows "CHR '':'' \<notin> set eng"
proof (cases "PHASE_MENUS ph")
  case None
  with assms(1) show ?thesis by (simp add: getPhaseMenu_def)
next
  case (Some d)
  with assms(1) have b: "block \<in> set (PhaseData.buildingBlocks d)" by (simp add: getPhaseMenu_def)
  have "eng \<in> fst ` set (engines block)"
    by (rule image_eqI [where x = "(eng, templates)"]) (simp_all add: assms(2))
  then have "eng \<in> (\<Union>b\<in>set (PhaseData.buildingBlocks d). fst ` set (engines b))"
    using b by (rule UN_I [rotated])
  then have "eng \<in> set (concat (map (map fst \<circ> engines) (PhaseData.buildingBlocks d)))"
    by (simp add: comp_def)
  then have "eng \<in> {''google'', ''bing'', ''yandex'', ''archive'', ''baidu'', ''scholar''}"
    using menu_engine_names [OF Some] by (rule subsetD [rotated])
  then show ?thesis by (rule engine_name_no_colon)
qed

lemma produced_key_iff:
  assumes "a \<in> set (produceQueries ph topics codes config)"
    and "b \<in> set (produceQueries ph topics codes config)"
  shows "(queryKey a = queryKey b) = (enginePair a = enginePair b)"
proof -
  from in_produceQueries [OF assms(1)] obtain ba tsa where
    "ba \<in> set (PhaseMenu.buildingBlocks (getPhaseMenu ph))" "(engine a, tsa) \<in> set (engines ba)"
    by (elim exE conjE)
  then have ca: "CHR '':'' \<notin> set (engine a)" by (rule block_engine_no_colon)
  from in_produceQueries [OF assms(2)] obtain bb tsb where
    "bb \<in> set (PhaseMenu.buildingBlocks (getPhaseMenu ph))" "(engine b, tsb) \<in> set (engines bb)"
    by (elim exE conjE)
  then have cb: "CHR '':'' \<notin> set (engine b)" by (rule block_engine_no_colon)
  show ?thesis
  proof
    assume "queryKey a = queryKey b"
    then have "engine a @ CHR '':'' # query a = engine b @ CHR '':'' # query b"
      by (simp add: queryKey_def)
    from key_inj [OF this ca cb] show "enginePair a = enginePair b" by (simp add: enginePair_def)
  next
    assume "enginePair a = enginePair b"
    then show "queryKey a = queryKey b" by (simp add: enginePair_def queryKey_def)
  qed
qed

text \<open>
  C3. For every phase, topics, codes and configuration, the list that \<open>buildQueries\<close>
  returns has no two elements with the same pair of engine and query, and it consists of
  exactly the elements of the production list (the array \<open>queries\<close> before the final
  filter) that stand at the first occurrence of their pair, in production order.
\<close>

theorem buildQueries_unique_first_occurrence:
  "distinct (map enginePair (buildQueries ph topics codes config)) \<and>
   buildQueries ph topics codes config
     = firstOccurrences enginePair (produceQueries ph topics codes config)"
proof
  let ?out = "buildQueries ph topics codes config"
  have d: "distinct (map queryKey ?out)"
    by (simp add: buildQueries_def dedupe_keys_distinct)
  have "queryKey x = queryKey y" if "enginePair x = enginePair y" for x y
    using that by (simp add: enginePair_def queryKey_def)
  with d show "distinct (map enginePair ?out)"
    by (rule distinct_map_coarser [where f = queryKey and h = enginePair])
next
  let ?xs = "produceQueries ph topics codes config"
  have "buildQueries ph topics codes config = firstOccurrences queryKey ?xs"
    unfolding buildQueries_def firstOccurrences_def dedupe_index [of "{}" ?xs] by simp
  also have "\<dots> = firstOccurrences enginePair ?xs"
    using produced_key_iff [of _ ph topics codes config]
    by (rule firstOccurrences_cong [where f = queryKey and g = enginePair])
  finally show "buildQueries ph topics codes config = firstOccurrences enginePair ?xs" .
qed

subsection \<open>One query per topic index\<close>

lemma length_concat_const:
  "(\<And>x. x \<in> set xs \<Longrightarrow> length (f x) = n) \<Longrightarrow> length (concat (map f xs)) = length xs * n"
  by (induction xs) simp_all

lemma templateQueries_replicate:
  "templateQueries ph letter eng hyg topics template
     = replicate (length topics)
         \<lparr>engine = eng, query = appendHygiene (substituteTopics topics template) hyg,
          phase = ph, blockCode = letter\<rparr>"
  by (simp add: templateQueries_def map_replicate_const)

lemma concat_map_segment:
  assumes "x \<in> set xs"
  shows "\<exists>pre post. concat (map f xs) = pre @ f x @ post"
proof -
  from assms obtain ys zs where "xs = ys @ x # zs" by (auto dest: split_list)
  then have "concat (map f xs) = concat (map f ys) @ f x @ concat (map f zs)" by simp
  then show ?thesis by (intro exI)
qed

lemma segment_trans:
  assumes "\<exists>pre post. ys = pre @ zs @ post" and "\<exists>pre post. zs = pre @ ws @ post"
  shows "\<exists>pre post. ys = pre @ ws @ (post :: 'a list)"
proof -
  from assms(1) obtain p1 q1 where 1: "ys = p1 @ zs @ q1" by (elim exE)
  from assms(2) obtain p2 q2 where 2: "zs = p2 @ ws @ q2" by (elim exE)
  have "ys = (p1 @ p2) @ ws @ (q2 @ q1)" unfolding 1 2 by simp
  then show ?thesis by (intro exI)
qed

lemma produceQueries_segment:
  assumes l: "letter \<in> set (expandCodes (getPhaseMenu ph) (blockCodes codes))"
    and f: "find (\<lambda>b. BuildingBlock.code b = letter) (PhaseMenu.buildingBlocks (getPhaseMenu ph))
              = Some block"
    and e: "(eng, templates) \<in> set (engines block)"
    and t: "template \<in> set templates"
  shows "\<exists>pre post. produceQueries ph topics codes config
           = pre @ replicate (length topics)
               \<lparr>engine = eng,
                query = appendHygiene (substituteTopics topics template)
                          (getActiveFilters codes config eng),
                phase = ph, blockCode = letter\<rparr> @ post"
proof -
  let ?F = "\<lambda>letter. case find (\<lambda>b. BuildingBlock.code b = letter)
                             (PhaseMenu.buildingBlocks (getPhaseMenu ph)) of
                     None \<Rightarrow> []
                   | Some block \<Rightarrow> blockQueries ph letter codes config topics block"
  have p: "produceQueries ph topics codes config
             = concat (map ?F (expandCodes (getPhaseMenu ph) (blockCodes codes)))"
    by (simp add: produceQueries_def Let_def)
  have F: "?F letter = blockQueries ph letter codes config topics block" by (simp add: f)
  have 1: "\<exists>pre post. produceQueries ph topics codes config
             = pre @ blockQueries ph letter codes config topics block @ post"
    unfolding p F [symmetric] using l by (rule concat_map_segment)
  have E: "engineQueries ph letter codes config topics (eng, templates)
             = concat (map (templateQueries ph letter eng (getActiveFilters codes config eng) topics)
                 templates)"
    by (simp add: engineQueries_def Let_def)
  have 2: "\<exists>pre post. blockQueries ph letter codes config topics block
             = pre @ engineQueries ph letter codes config topics (eng, templates) @ post"
    unfolding blockQueries_def using e by (rule concat_map_segment)
  have 3: "\<exists>pre post. engineQueries ph letter codes config topics (eng, templates)
             = pre @ templateQueries ph letter eng (getActiveFilters codes config eng) topics
                       template @ post"
    unfolding E using t by (rule concat_map_segment)
  from segment_trans [OF segment_trans [OF 1 2] 3] show ?thesis
    unfolding templateQueries_replicate .
qed

lemma dedupe_keeps_key:
  "q \<in> set xs \<Longrightarrow> queryKey q \<notin> seen \<Longrightarrow> \<exists>q' \<in> set (dedupe seen xs). queryKey q' = queryKey q"
proof (induction xs arbitrary: seen)
  case Nil
  then show ?case by simp
next
  case (Cons x xs)
  show ?case
  proof (cases "queryKey x = queryKey q")
    case True
    with Cons.prems(2) show ?thesis by simp
  next
    case False
    with Cons.prems have "q \<in> set xs" by auto
    from Cons.IH [OF this, of seen] Cons.IH [OF this, of "insert (queryKey x) seen"]
      Cons.prems(2) False
    show ?thesis by (cases "queryKey x \<in> seen") auto
  qed
qed

lemma filter_distinct_one:
  "distinct (map f xs) \<Longrightarrow> x \<in> set xs \<Longrightarrow> length (filter (\<lambda>y. f y = f x) xs) = 1"
proof (induction xs)
  case Nil
  then show ?case by simp
next
  case (Cons a xs)
  show ?case
  proof (cases "x \<in> set xs")
    case True
    with Cons have "f a \<noteq> f x" by auto
    with Cons True show ?thesis by simp
  next
    case False
    with Cons.prems have ax: "x = a" by simp
    from Cons.prems(1) have "f a \<notin> f ` set xs" by simp
    then have "f y \<noteq> f a" if "y \<in> set xs" for y using that by (metis imageI)
    then have "filter (\<lambda>y. f y = f a) xs = []" by (simp add: filter_empty_conv)
    with ax show ?thesis by simp
  qed
qed

lemma buildQueries_distinct_pairs:
  "distinct (map enginePair (buildQueries ph topics codes config))"
proof -
  have d: "distinct (map queryKey (buildQueries ph topics codes config))"
    by (simp add: buildQueries_def dedupe_keys_distinct)
  have "queryKey x = queryKey y" if "enginePair x = enginePair y" for x y
    using that by (simp add: enginePair_def queryKey_def)
  with d show ?thesis
    by (rule distinct_map_coarser [where f = queryKey and h = enginePair])
qed

lemma buildQueries_one_per_pair:
  assumes "q \<in> set (produceQueries ph topics codes config)"
  shows "length (filter (\<lambda>x. enginePair x = enginePair q) (buildQueries ph topics codes config)) = 1"
proof -
  from dedupe_keeps_key [OF assms, of "{}"] obtain q' where
    q': "q' \<in> set (buildQueries ph topics codes config)" and k: "queryKey q' = queryKey q"
    unfolding buildQueries_def by auto
  from q' set_dedupe_subset have p': "q' \<in> set (produceQueries ph topics codes config)"
    unfolding buildQueries_def by (rule subsetD [rotated])
  from k produced_key_iff [OF p' assms] have "enginePair q' = enginePair q" by simp
  with filter_distinct_one [OF buildQueries_distinct_pairs q']
  show ?thesis by simp
qed

lemma length_blockQueries:
  "length (blockQueries ph letter codes config topics block)
     = length topics * sum_list (map (\<lambda>(eng, templates). length templates) (engines block))"
proof -
  have "length (engineQueries ph letter codes config topics entry)
          = length topics * (case entry of (eng, templates) \<Rightarrow> length templates)" for entry
    by (cases entry)
       (simp add: engineQueries_def Let_def length_concat templateQueries_def comp_def
          sum_list_triv)
  then show ?thesis
    by (simp add: blockQueries_def length_concat comp_def sum_list_const_mult)
qed

lemma length_produceQueries:
  "length (produceQueries ph topics codes config)
     = length topics *
         sum_list (map (\<lambda>letter.
             case find (\<lambda>b. BuildingBlock.code b = letter)
                    (PhaseMenu.buildingBlocks (getPhaseMenu ph)) of
               None \<Rightarrow> 0
             | Some block \<Rightarrow> sum_list (map (\<lambda>(eng, templates). length templates) (engines block)))
           (expandCodes (getPhaseMenu ph) (blockCodes codes)))"
proof -
  have "length (case find P bs of None \<Rightarrow> []
                | Some block \<Rightarrow> blockQueries ph letter codes config topics block)
        = length topics * (case find P bs of None \<Rightarrow> 0
             | Some block \<Rightarrow> sum_list (map (\<lambda>(eng, templates). length templates) (engines block)))"
    for P bs letter
    by (simp add: length_blockQueries split: option.split)
  then show ?thesis
    by (simp add: produceQueries_def Let_def length_concat comp_def sum_list_const_mult)
qed


text \<open>
  C8. For every block letter of the expanded set that has a building block, every engine
  entry of the block and every template of the entry, the production list of the call
  holds, as one run, one query per topic index, all of them the same query, whatever
  placeholders the template has; the production list has as many elements as there are
  topics times the templates of the matched blocks. When there is a topic, the list that
  \<open>buildQueries\<close> returns has exactly one element with the engine and the text of that
  query: with two topics the two queries of the template collapse to one entry. (The loop
  over the topic index alone: a template yields as many queries as topics, an engine entry
  templates times topics; a template that only uses slot 0 gets the first topic there.)
\<close>

theorem one_query_per_topic_index:
  \<open>length (templateQueries ph letter eng hyg topics template) = length topics \<and>
   length (engineQueries ph letter codes config topics (eng, templates))
     = length templates * length topics \<and>
   templateQueries ph letter eng hyg [t0, t1] template
     = [\<lparr>engine = eng, query = appendHygiene (substituteTopics [t0, t1] template) hyg,
          phase = ph, blockCode = letter\<rparr>,
        \<lparr>engine = eng, query = appendHygiene (substituteTopics [t0, t1] template) hyg,
          phase = ph, blockCode = letter\<rparr>] \<and>
   dedupe {} (templateQueries ph letter eng hyg [t0, t1] template)
     = [\<lparr>engine = eng, query = appendHygiene (substituteTopics [t0, t1] template) hyg,
          phase = ph, blockCode = letter\<rparr>] \<and>
   substituteTopics [''alpha'', ''beta''] ''"<0>" before:2020-01-01''
     = ''"alpha" before:2020-01-01'' \<and>
   length (produceQueries ph topics codes config)
     = length topics *
         sum_list (map (\<lambda>letter.
             case find (\<lambda>b. BuildingBlock.code b = letter)
                    (PhaseMenu.buildingBlocks (getPhaseMenu ph)) of
               None \<Rightarrow> 0
             | Some block \<Rightarrow> sum_list (map (\<lambda>(eng, templates). length templates) (engines block)))
           (expandCodes (getPhaseMenu ph) (blockCodes codes))) \<and>
   (letter \<in> set (expandCodes (getPhaseMenu ph) (blockCodes codes)) \<and>
    find (\<lambda>b. BuildingBlock.code b = letter) (PhaseMenu.buildingBlocks (getPhaseMenu ph))
      = Some block \<and>
    (eng, templates) \<in> set (engines block) \<and> template \<in> set templates \<longrightarrow>
      (\<exists>pre post. produceQueries ph topics codes config
           = pre @ replicate (length topics)
               \<lparr>engine = eng,
                query = appendHygiene (substituteTopics topics template)
                          (getActiveFilters codes config eng),
                phase = ph, blockCode = letter\<rparr> @ post) \<and>
      (topics \<noteq> [] \<longrightarrow>
         length (filter (\<lambda>x. enginePair x
                      = (eng, appendHygiene (substituteTopics topics template)
                                (getActiveFilters codes config eng)))
                   (buildQueries ph topics codes config)) = 1))\<close>
proof (intro conjI impI)
  show "length (templateQueries ph letter eng hyg topics template) = length topics"
    by (simp add: templateQueries_def)
  show "length (engineQueries ph letter codes config topics (eng, templates))
          = length templates * length topics"
    by (simp add: engineQueries_def Let_def length_concat_const templateQueries_def)
  show "templateQueries ph letter eng hyg [t0, t1] template
     = [\<lparr>engine = eng, query = appendHygiene (substituteTopics [t0, t1] template) hyg,
          phase = ph, blockCode = letter\<rparr>,
        \<lparr>engine = eng, query = appendHygiene (substituteTopics [t0, t1] template) hyg,
          phase = ph, blockCode = letter\<rparr>]"
    by (simp add: templateQueries_def upt_rec)
  then show "dedupe {} (templateQueries ph letter eng hyg [t0, t1] template)
     = [\<lparr>engine = eng, query = appendHygiene (substituteTopics [t0, t1] template) hyg,
          phase = ph, blockCode = letter\<rparr>]"
    by simp
  show \<open>substituteTopics [''alpha'', ''beta''] ''"<0>" before:2020-01-01''
     = ''"alpha" before:2020-01-01''\<close>
    by code_simp
  show "length (produceQueries ph topics codes config)
     = length topics *
         sum_list (map (\<lambda>letter.
             case find (\<lambda>b. BuildingBlock.code b = letter)
                    (PhaseMenu.buildingBlocks (getPhaseMenu ph)) of
               None \<Rightarrow> 0
             | Some block \<Rightarrow> sum_list (map (\<lambda>(eng, templates). length templates) (engines block)))
           (expandCodes (getPhaseMenu ph) (blockCodes codes)))"
    by (rule length_produceQueries)
next
  let ?Q = "\<lparr>engine = eng,
                query = appendHygiene (substituteTopics topics template)
                          (getActiveFilters codes config eng),
                phase = ph, blockCode = letter\<rparr>"
  assume h: "letter \<in> set (expandCodes (getPhaseMenu ph) (blockCodes codes)) \<and>
    find (\<lambda>b. BuildingBlock.code b = letter) (PhaseMenu.buildingBlocks (getPhaseMenu ph))
      = Some block \<and>
    (eng, templates) \<in> set (engines block) \<and> template \<in> set templates"
  then have h1: "letter \<in> set (expandCodes (getPhaseMenu ph) (blockCodes codes))"
    and h2: "find (\<lambda>b. BuildingBlock.code b = letter)
               (PhaseMenu.buildingBlocks (getPhaseMenu ph)) = Some block"
    and h3: "(eng, templates) \<in> set (engines block)"
    and h4: "template \<in> set templates"
    by simp_all
  have seg: "\<exists>pre post. produceQueries ph topics codes config
           = pre @ replicate (length topics) ?Q @ post"
    by (rule produceQueries_segment [OF h1 h2 h3 h4])
  then show "\<exists>pre post. produceQueries ph topics codes config
           = pre @ replicate (length topics) ?Q @ post" .
  assume "topics \<noteq> []"
  with seg have "?Q \<in> set (produceQueries ph topics codes config)" by auto
  from buildQueries_one_per_pair [OF this]
  show "length (filter (\<lambda>x. enginePair x
                      = (eng, appendHygiene (substituteTopics topics template)
                                (getActiveFilters codes config eng)))
                   (buildQueries ph topics codes config)) = 1"
    by (simp add: enginePair_def)
qed

theorem one_query_per_topic_index_witness:
  \<open>''B'' \<in> set (expandCodes (getPhaseMenu 7) (blockCodes ''B'')) \<and>
   find (\<lambda>b. BuildingBlock.code b = ''B'') (PhaseMenu.buildingBlocks (getPhaseMenu 7))
     = Some (PhaseMenu.buildingBlocks (getPhaseMenu 7) ! 1) \<and>
   (''bing'', [''"<0>"'']) \<in> set (engines (PhaseMenu.buildingBlocks (getPhaseMenu 7) ! 1)) \<and>
   ''"<0>"'' \<in> set [''"<0>"''] \<and>
   [''alpha'', ''beta''] \<noteq> [] \<and>
   (\<exists>pre post. produceQueries 7 [''alpha'', ''beta''] ''B'' getDefaultConfig
        = pre @ replicate (length [''alpha'', ''beta''])
            \<lparr>engine = ''bing'',
             query = appendHygiene (substituteTopics [''alpha'', ''beta''] ''"<0>"'')
                       (getActiveFilters ''B'' getDefaultConfig ''bing''),
             phase = 7, blockCode = ''B''\<rparr> @ post) \<and>
   length (filter (\<lambda>x. enginePair x
                = (''bing'', appendHygiene (substituteTopics [''alpha'', ''beta''] ''"<0>"'')
                              (getActiveFilters ''B'' getDefaultConfig ''bing'')))
             (buildQueries 7 [''alpha'', ''beta''] ''B'' getDefaultConfig)) = 1\<close>
proof -
  let ?block = "PhaseMenu.buildingBlocks (getPhaseMenu 7) ! 1"
  have h1: "''B'' \<in> set (expandCodes (getPhaseMenu 7) (blockCodes ''B''))" by code_simp
  have h2: "find (\<lambda>b. BuildingBlock.code b = ''B'') (PhaseMenu.buildingBlocks (getPhaseMenu 7))
     = Some ?block" by code_simp
  have h3: \<open>(''bing'', [''"<0>"'']) \<in> set (engines ?block)\<close> by code_simp
  have h4: \<open>''"<0>"'' \<in> set [''"<0>"'']\<close> by simp
  have h5: "[''alpha'', ''beta''] \<noteq> []" by simp
  note T = one_query_per_topic_index [where ph = 7 and letter = "''B''" and block = ?block
      and eng = "''bing''" and templates = \<open>[''"<0>"'']\<close> and template = \<open>''"<0>"''\<close>
      and topics = "[''alpha'', ''beta'']" and codes = "''B''" and config = getDefaultConfig,
      THEN conjunct2, THEN conjunct2, THEN conjunct2, THEN conjunct2, THEN conjunct2,
      THEN conjunct2]
  have c: \<open>(\<exists>pre post. produceQueries 7 [''alpha'', ''beta''] ''B'' getDefaultConfig
        = pre @ replicate (length [''alpha'', ''beta''])
            \<lparr>engine = ''bing'',
             query = appendHygiene (substituteTopics [''alpha'', ''beta''] ''"<0>"'')
                       (getActiveFilters ''B'' getDefaultConfig ''bing''),
             phase = 7, blockCode = ''B''\<rparr> @ post) \<and>
      ([''alpha'', ''beta''] \<noteq> [] \<longrightarrow>
   length (filter (\<lambda>x. enginePair x
                = (''bing'', appendHygiene (substituteTopics [''alpha'', ''beta''] ''"<0>"'')
                              (getActiveFilters ''B'' getDefaultConfig ''bing'')))
             (buildQueries 7 [''alpha'', ''beta''] ''B'' getDefaultConfig)) = 1)\<close>
    by (rule mp [OF T]) (intro conjI h1 h2 h3 h4)
  from h1 h2 h3 h4 h5 conjunct1 [OF c] mp [OF conjunct2 [OF c] h5]
  show ?thesis by (intro conjI)
qed

subsection \<open>The hygiene resolver\<close>

lemma relaxed_foldl:
  "foldl (\<lambda>relaxed ch. case codeToNumber ch of Some n \<Rightarrow> insert n relaxed | None \<Rightarrow> relaxed) acc xs
     = acc \<union> {n. \<exists>c \<in> set xs. codeToNumber c = Some n}"
  by (induction xs arbitrary: acc) (auto split: option.splits)

lemma relaxedCodes_eq:
  "relaxedCodes codes = {n. \<exists>c \<in> set codes. codeToNumber (toLowerChar c) = Some n}"
  by (auto simp: relaxedCodes_def relaxed_foldl toLowerCase_def)



lemma exclusions_filter:
  "exclusions R target fs
     = filter (\<lambda>s. s \<noteq> []) (map (filterValue target \<circ> snd) (filter (\<lambda>(num, f). num \<notin> R) fs))"
  by (induction fs) auto





lemma set_buildQueries_subset:
  "set (buildQueries ph topics codes config) \<subseteq> set (produceQueries ph topics codes config)"
  unfolding buildQueries_def by (rule set_dedupe_subset)

lemma buildQueries_query_form:
  assumes "q \<in> set (buildQueries ph topics codes config)"
  shows "\<exists>template. query q = appendHygiene (substituteTopics topics template)
           (joinSpace (filter (\<lambda>s. s \<noteq> [])
              (map (filterValue (targetEngine (engine q)) \<circ> snd)
                 (filter (\<lambda>(num, f). num \<notin> relaxedCodes codes) (filters config)))))"
proof -
  from assms set_buildQueries_subset have "q \<in> set (produceQueries ph topics codes config)"
    by (rule subsetD [rotated])
  from in_produceQueries [OF this] obtain template where
    "q = \<lparr>engine = engine q,
                query = appendHygiene (substituteTopics topics template)
                          (getActiveFilters codes config (engine q)),
                phase = ph, blockCode = blockCode q\<rparr>"
    by (elim exE conjE)
  then have "query q = appendHygiene (substituteTopics topics template)
                          (getActiveFilters codes config (engine q))"
    by (cases q) simp
  then show ?thesis
    unfolding getActiveFilters_def activeExclusions_def exclusions_filter by (rule exI)
qed

lemma relaxedCodes_A: "relaxedCodes ''A'' = {''7''}"
  by (simp add: relaxedCodes_def toLowerCase_def toLowerChar_def ascii_upper_def ascii_lower_def
        codeToNumber_def)

lemma relaxedCodes_C: "relaxedCodes ''C'' = {''5''}"
  by (simp add: relaxedCodes_def toLowerCase_def toLowerChar_def ascii_upper_def ascii_lower_def
        codeToNumber_def)


text \<open>
  C4. A filter is relaxed whenever a character of \<open>codes\<close> lower-cases to its letter, so
  also when the letter stands there in upper case as a block selection: \<open>A\<close> lower-cases
  to \<open>a\<close>, the letter of filter 7 (AI_SLOP), and \<open>C\<close> to \<open>c\<close>, the letter of filter 5
  (COMMERCIAL). Hence every query that \<open>buildQueries\<close> returns for the codes \<open>A\<close> ends in
  a hygiene string built without filter 7, and every query for the codes \<open>C\<close> in one built
  without filter 5, for every phase, topic list and configuration.
\<close>

theorem uppercase_letter_relaxes_filter:
  "(c \<in> set codes \<and> codeToNumber (toLowerChar c) = Some n \<longrightarrow> n \<in> relaxedCodes codes) \<and>
   toLowerChar (CHR ''A'') = CHR ''a'' \<and> codeToNumber (CHR ''a'') = Some ''7'' \<and>
   toLowerChar (CHR ''C'') = CHR ''c'' \<and> codeToNumber (CHR ''c'') = Some ''5'' \<and>
   (q \<in> set (buildQueries ph topics ''A'' config) \<longrightarrow>
      (\<exists>template. query q = appendHygiene (substituteTopics topics template)
           (joinSpace (filter (\<lambda>s. s \<noteq> [])
              (map (filterValue (targetEngine (engine q)) \<circ> snd)
                 (filter (\<lambda>(num, f). num \<notin> {''7''}) (filters config))))))) \<and>
   (q' \<in> set (buildQueries ph topics ''C'' config) \<longrightarrow>
      (\<exists>template. query q' = appendHygiene (substituteTopics topics template)
           (joinSpace (filter (\<lambda>s. s \<noteq> [])
              (map (filterValue (targetEngine (engine q')) \<circ> snd)
                 (filter (\<lambda>(num, f). num \<notin> {''5''}) (filters config))))))) \<and>
   map (\<lambda>(num, f). (num, FilterConfig.name f)) (filters getDefaultConfig)
     = [(''1'', ''SOCIAL''), (''2'', ''FREE_HOSTING''), (''3'', ''SPAM_TLDS''),
        (''4'', ''STRUCTURAL_CRUFT''), (''5'', ''COMMERCIAL''), (''6'', ''LISTICLES''),
        (''7'', ''AI_SLOP'')]"
proof (intro conjI impI)
  assume "c \<in> set codes \<and> codeToNumber (toLowerChar c) = Some n"
  then show "n \<in> relaxedCodes codes" unfolding relaxedCodes_eq by (intro CollectI bexI [of _ c]) simp_all
next
  show "toLowerChar (CHR ''A'') = CHR ''a''" by code_simp
  show "codeToNumber (CHR ''a'') = Some ''7''" by code_simp
  show "toLowerChar (CHR ''C'') = CHR ''c''" by code_simp
  show "codeToNumber (CHR ''c'') = Some ''5''" by code_simp
next
  assume "q \<in> set (buildQueries ph topics ''A'' config)"
  from buildQueries_query_form [OF this] show "\<exists>template. query q = appendHygiene (substituteTopics topics template)
           (joinSpace (filter (\<lambda>s. s \<noteq> [])
              (map (filterValue (targetEngine (engine q)) \<circ> snd)
                 (filter (\<lambda>(num, f). num \<notin> {''7''}) (filters config)))))"
    unfolding relaxedCodes_A .
next
  assume "q' \<in> set (buildQueries ph topics ''C'' config)"
  from buildQueries_query_form [OF this] show "\<exists>template. query q' = appendHygiene (substituteTopics topics template)
           (joinSpace (filter (\<lambda>s. s \<noteq> [])
              (map (filterValue (targetEngine (engine q')) \<circ> snd)
                 (filter (\<lambda>(num, f). num \<notin> {''5''}) (filters config)))))"
    unfolding relaxedCodes_C .
next
  show "map (\<lambda>(num, f). (num, FilterConfig.name f)) (filters getDefaultConfig)
     = [(''1'', ''SOCIAL''), (''2'', ''FREE_HOSTING''), (''3'', ''SPAM_TLDS''),
        (''4'', ''STRUCTURAL_CRUFT''), (''5'', ''COMMERCIAL''), (''6'', ''LISTICLES''),
        (''7'', ''AI_SLOP'')]"
    by code_simp
qed

theorem uppercase_letter_relaxes_filter_witness:
  \<open>CHR ''A'' \<in> set ''A'' \<and> codeToNumber (toLowerChar (CHR ''A'')) = Some ''7'' \<and>
   ''7'' \<in> relaxedCodes ''A'' \<and>
   \<lparr>engine = ''google'',
     query = ''"x" OR "x" OR "x" ''
               @ joinSpace (map (google \<circ> snd) (take 6 (filters getDefaultConfig))),
     phase = 1, blockCode = ''A''\<rparr> \<in> set (buildQueries 1 [''x''] ''A'' getDefaultConfig) \<and>
   (\<exists>template.
      ''"x" OR "x" OR "x" '' @ joinSpace (map (google \<circ> snd) (take 6 (filters getDefaultConfig)))
        = appendHygiene (substituteTopics [''x''] template)
           (joinSpace (filter (\<lambda>s. s \<noteq> [])
              (map (filterValue (targetEngine ''google'') \<circ> snd)
                 (filter (\<lambda>(num, f). num \<notin> {''7''}) (filters getDefaultConfig)))))) \<and>
   \<lparr>engine = ''bing'',
     query = ''"x" near:8 "server" ''
               @ joinSpace (map (bing \<circ> snd)
                   (filter (\<lambda>(num, f). num \<noteq> ''5'') (filters getDefaultConfig))),
     phase = 1, blockCode = ''C''\<rparr> \<in> set (buildQueries 1 [''x''] ''C'' getDefaultConfig) \<and>
   (\<exists>template.
      ''"x" near:8 "server" ''
          @ joinSpace (map (bing \<circ> snd)
              (filter (\<lambda>(num, f). num \<noteq> ''5'') (filters getDefaultConfig)))
        = appendHygiene (substituteTopics [''x''] template)
           (joinSpace (filter (\<lambda>s. s \<noteq> [])
              (map (filterValue (targetEngine ''bing'') \<circ> snd)
                 (filter (\<lambda>(num, f). num \<notin> {''5''}) (filters getDefaultConfig))))))\<close>
proof -
  let ?qA = \<open>\<lparr>engine = ''google'',
     query = ''"x" OR "x" OR "x" ''
               @ joinSpace (map (google \<circ> snd) (take 6 (filters getDefaultConfig))),
     phase = 1, blockCode = ''A''\<rparr>\<close>
  let ?qC = \<open>\<lparr>engine = ''bing'',
     query = ''"x" near:8 "server" ''
               @ joinSpace (map (bing \<circ> snd)
                   (filter (\<lambda>(num, f). num \<noteq> ''5'') (filters getDefaultConfig))),
     phase = 1, blockCode = ''C''\<rparr>\<close>
  have l: "CHR ''A'' \<in> set ''A'' \<and> codeToNumber (toLowerChar (CHR ''A'')) = Some ''7''"
    by code_simp
  have a: "?qA \<in> set (buildQueries 1 [''x''] ''A'' getDefaultConfig)" by code_simp
  have c: "?qC \<in> set (buildQueries 1 [''x''] ''C'' getDefaultConfig)" by code_simp
  note T = uppercase_letter_relaxes_filter [where c = "CHR ''A''" and codes = "''A''"
      and n = "''7''" and q = ?qA and q' = ?qC and ph = 1 and topics = "[''x'']"
      and config = getDefaultConfig]
  have r: "''7'' \<in> relaxedCodes ''A''"
    by (rule mp [OF T [THEN conjunct1] l])
  have ea: "\<exists>template. query ?qA = appendHygiene (substituteTopics [''x''] template)
           (joinSpace (filter (\<lambda>s. s \<noteq> [])
              (map (filterValue (targetEngine (engine ?qA)) \<circ> snd)
                 (filter (\<lambda>(num, f). num \<notin> {''7''}) (filters getDefaultConfig)))))"
    by (rule mp [OF T [THEN conjunct2, THEN conjunct2, THEN conjunct2, THEN conjunct2,
                      THEN conjunct2, THEN conjunct1] a])
  have ec: "\<exists>template. query ?qC = appendHygiene (substituteTopics [''x''] template)
           (joinSpace (filter (\<lambda>s. s \<noteq> [])
              (map (filterValue (targetEngine (engine ?qC)) \<circ> snd)
                 (filter (\<lambda>(num, f). num \<notin> {''5''}) (filters getDefaultConfig)))))"
    by (rule mp [OF T [THEN conjunct2, THEN conjunct2, THEN conjunct2, THEN conjunct2,
                      THEN conjunct2, THEN conjunct2, THEN conjunct1] c])
  from ea have ea': \<open>\<exists>template.
      ''"x" OR "x" OR "x" '' @ joinSpace (map (google \<circ> snd) (take 6 (filters getDefaultConfig)))
        = appendHygiene (substituteTopics [''x''] template)
           (joinSpace (filter (\<lambda>s. s \<noteq> [])
              (map (filterValue (targetEngine ''google'') \<circ> snd)
                 (filter (\<lambda>(num, f). num \<notin> {''7''}) (filters getDefaultConfig)))))\<close>
    unfolding Query.select_convs .
  from ec have ec': \<open>\<exists>template.
      ''"x" near:8 "server" ''
          @ joinSpace (map (bing \<circ> snd)
              (filter (\<lambda>(num, f). num \<noteq> ''5'') (filters getDefaultConfig)))
        = appendHygiene (substituteTopics [''x''] template)
           (joinSpace (filter (\<lambda>s. s \<noteq> [])
              (map (filterValue (targetEngine ''bing'') \<circ> snd)
                 (filter (\<lambda>(num, f). num \<notin> {''5''}) (filters getDefaultConfig)))))\<close>
    unfolding Query.select_convs .
  from conjunct1 [OF l] conjunct2 [OF l] r a ea' c ec' show ?thesis by (intro conjI)
qed

subsection \<open>Scenarios on the default configuration\<close>

text \<open>
  C1. The specification expects, for phase 1, topics \<open>["x"]\<close> and codes \<open>A\<close>, the google
  query of block A to be the filled template followed by the clauses of all seven filters.
  The code returns one google query, and it carries the clauses of the first six filters
  only: the block letter \<open>A\<close> has relaxed the seventh filter, AI_SLOP. No returned query
  has the expected text.
\<close>

theorem scenario_phase1_A_relaxes_ai_slop:
  \<open>filter (\<lambda>q. engine q = ''google'') (buildQueries 1 [''x''] ''A'' getDefaultConfig)
     = [\<lparr>engine = ''google'',
         query = ''"x" OR "x" OR "x" ''
                   @ joinSpace (map (google \<circ> snd) (take 6 (filters getDefaultConfig))),
         phase = 1, blockCode = ''A''\<rparr>] \<and>
   ''"x" OR "x" OR "x" '' @ joinSpace (map (google \<circ> snd) (filters getDefaultConfig))
     \<notin> set (map query (buildQueries 1 [''x''] ''A'' getDefaultConfig)) \<and>
   map (FilterConfig.name \<circ> snd) (drop 6 (filters getDefaultConfig)) = [''AI_SLOP'']\<close>
  by code_simp

text \<open>
  C2. Phase 1 has the precombination \<open>X\<close> with the constituents \<open>A\<close> and \<open>B\<close>. The codes
  \<open>X\<close> and \<open>AB\<close> select the same blocks in the same order, but the sets of
  (engine, query) pairs differ: under \<open>X\<close> the queries carry all seven clauses, under
  \<open>AB\<close> the letter \<open>A\<close> has relaxed the seventh.
\<close>

theorem precombination_X_differs_from_AB:
  \<open>set (map enginePair (buildQueries 1 [''x''] ''X'' getDefaultConfig))
     \<noteq> set (map enginePair (buildQueries 1 [''x''] ''AB'' getDefaultConfig)) \<and>
   map blockCode (buildQueries 1 [''x''] ''X'' getDefaultConfig)
     = map blockCode (buildQueries 1 [''x''] ''AB'' getDefaultConfig) \<and>
   enginePair (buildQueries 1 [''x''] ''X'' getDefaultConfig ! 0)
     = (''google'', ''"x" OR "x" OR "x" ''
          @ joinSpace (map (google \<circ> snd) (filters getDefaultConfig))) \<and>
   enginePair (buildQueries 1 [''x''] ''AB'' getDefaultConfig ! 0)
     = (''google'', ''"x" OR "x" OR "x" ''
          @ joinSpace (map (google \<circ> snd) (take 6 (filters getDefaultConfig))))\<close>
  by code_simp

subsection \<open>Topic substitution\<close>






text \<open>
  C7. The specification has every placeholder replaced by exactly the text of its topic.
  The code passes the topic to \<open>replace\<close> as a replacement string, where a dollar sign
  starts a replacement pattern: the topic \<open>$&\<close> stands for the matched placeholder itself,
  so the placeholder stays in the query, and \<open>$$\<close> inside a topic comes out as one dollar
  sign. \<open>substituteExactly\<close> is what the specification describes.
\<close>

theorem dollar_pattern_in_topic_is_expanded:
  \<open>substituteTopics [''$&''] ''"<0>" "overview"'' = ''"<0>" "overview"'' \<and>
   substituteExactly [''$&''] ''"<0>" "overview"'' = ''"$&" "overview"'' \<and>
   substituteTopics [''a$$b''] ''"<0>" "overview"'' = ''"a$b" "overview"'' \<and>
   substituteExactly [''a$$b''] ''"<0>" "overview"'' = ''"a$$b" "overview"'' \<and>
   map query (filter (\<lambda>q. engine q = ''archive'') (buildQueries 7 [''$&''] ''C'' getDefaultConfig))
     = [''<0> '' @ getActiveFilters ''C'' getDefaultConfig ''archive'']\<close>
  by code_simp

subsection \<open>The string-length limit\<close>




















































end
